theory Spec2Isabelle
  imports Complex_Main "HOL-Library.Char_ord" "HOL-Library.List_Lexorder"
begin

section \<open>Conventions of the embedding\<close>

text \<open>
  The pipeline is TypeScript. Its \<open>number\<close> values are modelled as exact reals: no
  rounding, no NaN and no infinities. Where the source divides by a value that may be zero
  the model writes the case out instead of relying on the value HOL gives to \<open>x / 0\<close>.
  A \<open>Date\<close> is its epoch time in milliseconds, an \<open>int\<close>. A string is a
  \<open>char list\<close>, so headlines range over 8-bit (Latin-1) code points and \<open>length\<close>
  counts characters as the source's \<open>.length\<close> does on such strings. Clock reads
  (\<open>new Date()\<close>, \<open>Date.now()\<close>) and network responses are explicit arguments;
  module-level and instance state is passed in and returned.
\<close>

section \<open>Sentiment engine (src/services/news-sentiment.ts)\<close>

record SentimentResult =
  score :: real
  adjustmentPercent :: real
  confidence :: real
  triggerWords :: "string list"
  summary :: string
  headlines :: "string list"
  lastUpdated :: int

definition BULLISH_KEYWORDS :: "string list" where
  "BULLISH_KEYWORDS =
    [''war'', ''attack'', ''missile'', ''military'', ''invasion'', ''conflict'', ''tension'',
     ''iran'', ''israel'', ''russia'', ''ukraine'', ''china'', ''taiwan'', ''north korea'',
     ''strike'', ''bomb'', ''escalation'', ''sanctions'', ''retaliation'',
     ''crash'', ''crisis'', ''recession'', ''collapse'', ''panic'', ''fear'', ''uncertainty'',
     ''default'', ''bankruptcy'', ''layoff'', ''downturn'',
     ''inflation'', ''cpi'', ''rising prices'', ''cost of living'', ''stagflation'',
     ''dollar weak'', ''dollar fall'', ''dxy down'', ''dollar decline'', ''usd falls'',
     ''rate cut'', ''dovish'', ''quantitative easing'', ''qe'', ''stimulus'',
     ''lower rates'', ''money printing'', ''fed pause'',
     ''gold rally'', ''gold surge'', ''gold record'', ''gold high'', ''gold demand'',
     ''central bank buying'', ''gold reserves'', ''safe haven'', ''safe-haven'',
     ''gold etf inflow'', ''gold price up'', ''gold bullish'',
     ''volatility'', ''vix spike'', ''risk off'', ''flight to safety'']"

definition BEARISH_KEYWORDS :: "string list" where
  "BEARISH_KEYWORDS =
    [''dollar strength'', ''dxy up'', ''dollar rally'', ''strong dollar'', ''usd rises'',
     ''rate hike'', ''hawkish'', ''taper'', ''tightening'', ''inflation cool'',
     ''fed raise'', ''higher rates'', ''interest rate increase'',
     ''market rally'', ''stocks surge'', ''risk on'', ''bull market'', ''optimism'',
     ''economic growth'', ''recovery'', ''strong jobs'', ''low unemployment'',
     ''gold fall'', ''gold drop'', ''gold decline'', ''gold selloff'', ''gold outflow'',
     ''gold bearish'', ''gold price down'', ''gold etf outflow'',
     ''ceasefire'', ''peace deal'', ''de-escalation'', ''resolution'', ''stability'']"

definition HIGH_IMPACT_MULTIPLIERS :: "(string \<times> real) list" where
  "HIGH_IMPACT_MULTIPLIERS =
    [(''iran'', 1.5), (''israel'', 1.5), (''war'', 2.0), (''attack'', 1.8),
     (''missile'', 1.7), (''nuclear'', 2.0), (''rate cut'', 1.5), (''rate hike'', 1.5),
     (''recession'', 1.8), (''crash'', 1.8), (''fed'', 1.3)]"

definition CACHE_TTL :: int where
  "CACHE_TTL = 5 * 60 * 1000"

text \<open>\<open>String.prototype.toLowerCase\<close> on the code points a \<open>char\<close> can hold: the
  ASCII capitals and the Latin-1 capitals (all of U+00C0..U+00DE but the multiplication
  sign) move up by 32.\<close>

definition toLowerChar :: "char \<Rightarrow> char" where
  "toLowerChar c =
     (let n = (of_char c :: nat)
      in if (65 \<le> n \<and> n \<le> 90) \<or> (192 \<le> n \<and> n \<le> 222 \<and> n \<noteq> 215)
         then char_of (n + 32) else c)"

definition toLowerCase :: "string \<Rightarrow> string" where
  "toLowerCase s = map toLowerChar s"

fun startsWith :: "string \<Rightarrow> string \<Rightarrow> bool" where
  "startsWith s [] = True"
| "startsWith [] (k # ks) = False"
| "startsWith (c # cs) (k # ks) = (c = k \<and> startsWith cs ks)"

text \<open>\<open>s.includes(k)\<close>: \<open>k\<close> occurs in \<open>s\<close> as a contiguous run.\<close>

fun includesStr :: "string \<Rightarrow> string \<Rightarrow> bool" where
  "includesStr [] k = (k = [])"
| "includesStr (c # cs) k = (startsWith (c # cs) k \<or> includesStr cs k)"

fun join :: "string \<Rightarrow> string list \<Rightarrow> string" where
  "join sep [] = []"
| "join sep [x] = x"
| "join sep (x # y # ys) = x @ sep @ join sep (y # ys)"

text \<open>\<open>[...new Set(xs)]\<close>: the distinct elements in order of first occurrence.\<close>

fun setOrder :: "'a list \<Rightarrow> 'a list \<Rightarrow> 'a list" where
  "setOrder seen [] = rev seen"
| "setOrder seen (x # xs) = (if x \<in> set seen then setOrder seen xs else setOrder (x # seen) xs)"

text \<open>\<open>HIGH_IMPACT_MULTIPLIERS[keyword] || 1\<close>: a missing entry, and a falsy one, give 1.\<close>

definition multiplierOf :: "string \<Rightarrow> real" where
  "multiplierOf keyword =
     (case map_of HIGH_IMPACT_MULTIPLIERS keyword of
        None \<Rightarrow> 1
      | Some m \<Rightarrow> if m = 0 then 1 else m)"

record HeadlineResult =
  h_score :: real
  h_weight :: real
  h_triggers :: "string list"

text \<open>The two keyword loops of \<open>analyzeHeadline\<close>, over the lower-cased headline.\<close>

fun scanBullish :: "string \<Rightarrow> string list \<Rightarrow> HeadlineResult \<Rightarrow> HeadlineResult" where
  "scanBullish lower [] acc = acc"
| "scanBullish lower (keyword # rest) acc =
     scanBullish lower rest
       (if includesStr lower keyword
        then (let multiplier = multiplierOf keyword
              in \<lparr>h_score = h_score acc + 0.3 * multiplier,
                  h_weight = max (h_weight acc) multiplier,
                  h_triggers = h_triggers acc @ [CHR ''+'' # keyword]\<rparr>)
        else acc)"

fun scanBearish :: "string \<Rightarrow> string list \<Rightarrow> HeadlineResult \<Rightarrow> HeadlineResult" where
  "scanBearish lower [] acc = acc"
| "scanBearish lower (keyword # rest) acc =
     scanBearish lower rest
       (if includesStr lower keyword
        then (let multiplier = multiplierOf keyword
              in \<lparr>h_score = h_score acc - 0.3 * multiplier,
                  h_weight = max (h_weight acc) multiplier,
                  h_triggers = h_triggers acc @ [CHR ''-'' # keyword]\<rparr>)
        else acc)"

definition analyzeHeadline :: "string \<Rightarrow> HeadlineResult" where
  "analyzeHeadline headline =
     (let lower = toLowerCase headline;
          acc0 = \<lparr>h_score = 0, h_weight = 1, h_triggers = []\<rparr>;
          acc1 = scanBullish lower BULLISH_KEYWORDS acc0;
          acc2 = scanBearish lower BEARISH_KEYWORDS acc1
      in acc2\<lparr>h_score := max (- 1) (min 1 (h_score acc2))\<rparr>)"

record Totals =
  totalScore :: real
  totalWeight :: real
  allTriggers :: "string list"

text \<open>The accumulation loop of \<open>analyzeHeadlines\<close>.\<close>

fun accumulate :: "string list \<Rightarrow> Totals \<Rightarrow> Totals" where
  "accumulate [] t = t"
| "accumulate (headline # rest) t =
     (let result = analyzeHeadline headline
      in accumulate rest
           \<lparr>totalScore = totalScore t + h_score result * h_weight result,
            totalWeight = totalWeight t + h_weight result,
            allTriggers = allTriggers t @ h_triggers result\<rparr>)"

definition totalsOf :: "string list \<Rightarrow> Totals" where
  "totalsOf hs = accumulate hs \<lparr>totalScore = 0, totalWeight = 0, allTriggers = []\<rparr>"

definition analyzeHeadlines :: "int \<Rightarrow> string list \<Rightarrow> SentimentResult" where
  "analyzeHeadlines now hs =
     (if length hs = 0 then
        \<lparr>score = 0, adjustmentPercent = 0, confidence = 0, triggerWords = [],
         summary = ''No headlines to analyze'', headlines = [], lastUpdated = now\<rparr>
      else
        (let t = totalsOf hs;
             avgScore = (if totalWeight t > 0 then totalScore t / totalWeight t else 0);
             triggerCount = length (allTriggers t);
             summary0 =
               (if avgScore > 0.3 then
                  ''Bullish for Gold: '' @
                    join '', '' (take 3 (filter (\<lambda>t. startsWith t ''+'') (allTriggers t)))
                else if avgScore < - 0.3 then
                  ''Bearish for Gold: '' @
                    join '', '' (take 3 (filter (\<lambda>t. startsWith t ''-'') (allTriggers t)))
                else if length (allTriggers t) > 0 then ''Mixed signals - neutral stance''
                else ''Neutral sentiment'')
         in \<lparr>score = avgScore,
             adjustmentPercent = avgScore * 3,
             confidence = min 1 (real triggerCount / (real (length hs) * 2)),
             triggerWords = take 10 (setOrder [] (allTriggers t)),
             summary = summary0,
             headlines = take 10 hs,
             lastUpdated = now\<rparr>))"

subsection \<open>Fetching, caching and the fallback\<close>

text \<open>
  The module keeps \<open>cachedSentiment\<close> and \<open>cacheTimestamp\<close>. What the network
  returns to \<open>fetchAndAnalyzeSentiment\<close> is an argument: the \<open>fetch\<close> promise rejects
  (network failure, or the 10 s abort signal), or resolves to a response whose \<open>ok\<close> flag
  is false, or to one whose body is read with \<open>response.json()\<close>. The body is invalid
  JSON (the read rejects), or has no truthy \<open>articles\<close>, or has \<open>articles\<close> on which
  \<open>.map\<close> cannot run (a \<open>TypeError\<close>), or has an array of articles, each with a string
  title or none.
\<close>

record SentimentCache =
  cachedSentiment :: "SentimentResult option"
  cacheTimestamp :: int

text \<open>A thrown \<open>Error\<close> with its message, by origin: a rejected \<open>fetch\<close>, a rejected
  \<open>response.json()\<close>, a \<open>TypeError\<close> of the runtime, or \<open>throw new Error(msg)\<close>.\<close>

datatype error = FetchRejected string | JsonRejected string | TypeError string | Error string

datatype gdelt_body =
    BodyInvalid string
  | BodyNoArticles
  | BodyArticlesNotArray
  | BodyArticles "string option list"

datatype gdelt_response =
    GdeltRejected string
  | GdeltNotOk
  | GdeltOk gdelt_body

text \<open>A \<open>try { body } catch { handler }\<close> block: the handler runs on a raised error.\<close>

definition try_catch :: "error + 'a \<Rightarrow> (error \<Rightarrow> error + 'a) \<Rightarrow> error + 'a" where
  "try_catch body handler = (case body of Inl e \<Rightarrow> handler e | Inr v \<Rightarrow> Inr v)"

definition getFallbackSentiment :: "SentimentCache \<Rightarrow> int \<Rightarrow> SentimentResult" where
  "getFallbackSentiment cache now =
     (case cachedSentiment cache of
        Some c \<Rightarrow> c\<lparr>confidence := confidence c * 0.5\<rparr>
      | None \<Rightarrow>
          \<lparr>score = 0, adjustmentPercent = 0, confidence = 0, triggerWords = [],
           summary = [], headlines = [], lastUpdated = now\<rparr>)"

text \<open>The titles that survive
  \<open>.filter(t => typeof t === 'string' && t.length > 10).slice(0, 30)\<close>.\<close>

definition survivingHeadlines :: "string option list \<Rightarrow> string list" where
  "survivingHeadlines articles =
     take 30
       (List.map_filter
          (\<lambda>t. case t of None \<Rightarrow> None | Some s \<Rightarrow> if length s > 10 then Some s else None)
          articles)"

text \<open>The body of the \<open>try\<close> block; \<open>later\<close> is the clock after the response arrived.\<close>

definition fetchSentimentBody ::
  "SentimentCache \<Rightarrow> int \<Rightarrow> gdelt_response \<Rightarrow> error + (SentimentResult \<times> SentimentCache)" where
  "fetchSentimentBody cache later resp =
     (case resp of
        GdeltRejected msg \<Rightarrow> Inl (FetchRejected msg)
      | GdeltNotOk \<Rightarrow> Inr (getFallbackSentiment cache later, cache)
      | GdeltOk (BodyInvalid msg) \<Rightarrow> Inl (JsonRejected msg)
      | GdeltOk BodyArticlesNotArray \<Rightarrow> Inl (TypeError ''articles.map is not a function'')
      | GdeltOk BodyNoArticles \<Rightarrow> Inr (getFallbackSentiment cache later, cache)
      | GdeltOk (BodyArticles articles) \<Rightarrow>
          (let hs = survivingHeadlines articles
           in if length hs = 0 then Inr (getFallbackSentiment cache later, cache)
              else (let result = analyzeHeadlines later hs
                    in Inr (result, \<lparr>cachedSentiment = Some result, cacheTimestamp = later\<rparr>))))"

text \<open>The cache check at the head of \<open>fetchAndAnalyzeSentiment\<close>: a result is cached
  and younger than the TTL, so no request is made.\<close>

definition cacheFresh :: "SentimentCache \<Rightarrow> int \<Rightarrow> bool" where
  "cacheFresh cache now =
     (cachedSentiment cache \<noteq> None \<and> now - cacheTimestamp cache < CACHE_TTL)"

definition fetchAndAnalyzeSentiment ::
  "SentimentCache \<Rightarrow> int \<Rightarrow> int \<Rightarrow> gdelt_response \<Rightarrow> error + (SentimentResult \<times> SentimentCache)" where
  "fetchAndAnalyzeSentiment cache now later resp =
     (let refetch = try_catch (fetchSentimentBody cache later resp)
                      (\<lambda>e. Inr (getFallbackSentiment cache later, cache))
      in case cachedSentiment cache of
           Some cached \<Rightarrow>
             if now - cacheTimestamp cache < CACHE_TTL then Inr (cached, cache) else refetch
         | None \<Rightarrow> refetch)"

text \<open>The kinds of fetch failure: the request fails or its body cannot be read or
  traversed, the status is not ok, or no headline survives the filter.\<close>

fun fetchFailed :: "gdelt_response \<Rightarrow> bool" where
  "fetchFailed (GdeltRejected msg) = True"
| "fetchFailed GdeltNotOk = True"
| "fetchFailed (GdeltOk (BodyInvalid msg)) = True"
| "fetchFailed (GdeltOk BodyArticlesNotArray) = True"
| "fetchFailed (GdeltOk BodyNoArticles) = True"
| "fetchFailed (GdeltOk (BodyArticles articles)) = (survivingHeadlines articles = [])"

section \<open>Regression engine (linearRegression in the chart component)\<close>

record RegressionResult =
  slope :: real
  intercept :: real
  rSquared :: real

record Sums =
  sumX :: real
  sumY :: real
  sumXY :: real
  sumX2 :: real
  sumY2 :: real

text \<open>The first loop, \<open>for (let i = 0; i < n; i++)\<close>, from index \<open>i\<close> over the values
  still to be read.\<close>

fun sumLoop :: "real list \<Rightarrow> nat \<Rightarrow> Sums \<Rightarrow> Sums" where
  "sumLoop [] i s = s"
| "sumLoop (y # ys) i s =
     sumLoop ys (i + 1)
       \<lparr>sumX = sumX s + real i,
        sumY = sumY s + y,
        sumXY = sumXY s + real i * y,
        sumX2 = sumX2 s + real i * real i,
        sumY2 = sumY2 s + y * y\<rparr>"

record Residuals =
  ssRes :: real
  ssTot :: real

text \<open>The second loop, accumulating the residual and total sums of squares.\<close>

fun residualLoop :: "real \<Rightarrow> real \<Rightarrow> real \<Rightarrow> real list \<Rightarrow> nat \<Rightarrow> Residuals \<Rightarrow> Residuals" where
  "residualLoop sl ic yMean [] i r = r"
| "residualLoop sl ic yMean (y # ys) i r =
     (let yPred = sl * real i + ic
      in residualLoop sl ic yMean ys (i + 1)
           \<lparr>ssRes = ssRes r + (y - yPred)\<^sup>2,
            ssTot = ssTot r + (y - yMean)\<^sup>2\<rparr>)"

definition denominatorOf :: "nat \<Rightarrow> Sums \<Rightarrow> real" where
  "denominatorOf n s = real n * sumX2 s - sumX s * sumX s"

text \<open>What \<open>linearRegression\<close> does with the sums once the first loop has run.\<close>

definition regressionFromSums :: "real list \<Rightarrow> Sums \<Rightarrow> RegressionResult" where
  "regressionFromSums values s =
     (let n = length values;
          denominator = denominatorOf n s
      in if denominator = 0 then \<lparr>slope = 0, intercept = sumY s / real n, rSquared = 0\<rparr>
         else
           (let sl = (real n * sumXY s - sumX s * sumY s) / denominator;
                ic = (sumY s - sl * sumX s) / real n;
                yMean = sumY s / real n;
                r = residualLoop sl ic yMean values 0 \<lparr>ssRes = 0, ssTot = 0\<rparr>
            in \<lparr>slope = sl, intercept = ic,
                rSquared = (if ssTot r > 0 then 1 - ssRes r / ssTot r else 0)\<rparr>))"

definition sumsOf :: "real list \<Rightarrow> Sums" where
  "sumsOf values =
     sumLoop values 0 \<lparr>sumX = 0, sumY = 0, sumXY = 0, sumX2 = 0, sumY2 = 0\<rparr>"

definition linearRegression :: "real list \<Rightarrow> RegressionResult" where
  "linearRegression values =
     (if length values < 2
      then \<lparr>slope = 0, intercept = (case values of [] \<Rightarrow> 0 | v # _ \<Rightarrow> v), rSquared = 0\<rparr>
      else regressionFromSums values (sumsOf values))"


section \<open>Chart data model\<close>

datatype GoldTimeRange = Range1h | Range6h | Range24h | Range7d

datatype Trend = Bullish | Bearish | Neutral

datatype DataSource = Xaut | Yahoo

text \<open>The result of a division whose divisor may be zero: a finite number, or what
  IEEE arithmetic gives for \<open>x / 0\<close>.\<close>

datatype jsnum = Fin real | PosInf | NegInf | NaN

text \<open>\<open>(num / den) * 100\<close>.\<close>

definition percentOf :: "real \<Rightarrow> real \<Rightarrow> jsnum" where
  "percentOf num den =
     (if den \<noteq> 0 then Fin (num / den * 100)
      else if num > 0 then PosInf
      else if num < 0 then NegInf
      else NaN)"

fun js_gt :: "jsnum \<Rightarrow> real \<Rightarrow> bool" where
  "js_gt (Fin x) c = (x > c)"
| "js_gt PosInf c = True"
| "js_gt NegInf c = False"
| "js_gt NaN c = False"

fun js_lt :: "jsnum \<Rightarrow> real \<Rightarrow> bool" where
  "js_lt (Fin x) c = (x < c)"
| "js_lt PosInf c = False"
| "js_lt NegInf c = True"
| "js_lt NaN c = False"

record PredictionPoint =
  pp_timestamp :: int
  pp_value :: real

record PredictionResult =
  points :: "PredictionPoint list"
  pr_slope :: real
  pr_trend :: Trend
  pr_confidence :: real
  sentimentAdjustment :: real
  sentimentSummary :: string

record PredictionConfig =
  lookback :: nat
  projectionPoints :: nat
  intervalMs :: int

fun PREDICTION_CONFIG :: "GoldTimeRange \<Rightarrow> PredictionConfig" where
  "PREDICTION_CONFIG Range1h = \<lparr>lookback = 30, projectionPoints = 3, intervalMs = 2 * 60 * 1000\<rparr>"
| "PREDICTION_CONFIG Range6h = \<lparr>lookback = 40, projectionPoints = 3, intervalMs = 5 * 60 * 1000\<rparr>"
| "PREDICTION_CONFIG Range24h = \<lparr>lookback = 48, projectionPoints = 3, intervalMs = 15 * 60 * 1000\<rparr>"
| "PREDICTION_CONFIG Range7d = \<lparr>lookback = 50, projectionPoints = 3, intervalMs = 60 * 60 * 1000\<rparr>"

record GoldPriceDataPoint =
  timestamp :: int
  openPrice :: real
  high :: real
  low :: real
  close :: real
  volume :: real

record QuickStats =
  qs_currentPrice :: real
  change24h :: real
  changePercent24h :: jsnum
  weeklyHigh :: real
  weeklyLow :: real
  qs_trend :: Trend

record GoldChartState =
  currentPrice :: "real option"
  previousClose :: "real option"
  change :: "real option"
  changePercent :: "jsnum option"
  trend :: Trend
  data :: "GoldPriceDataPoint list"
  lastUpdatedAt :: "int option"
  error :: "string option"
  loading :: bool
  quickStats :: "QuickStats option"
  prediction :: "PredictionResult option"
  sentiment :: "SentimentResult option"
  dataSource :: DataSource

text \<open>The chart instance: its state and the two private fields the pipeline reads.\<close>

record GoldPriceChart =
  state :: GoldChartState
  currentTimeRange :: GoldTimeRange
  globalSlope :: real

section \<open>Slope blender and prediction assembler (calculatePrediction)\<close>

text \<open>\<open>xs.slice(-k)\<close> for \<open>0 \<le> k \<le> xs.length\<close>: the last \<open>k\<close> elements, and the whole
  array when \<open>k\<close> is 0.\<close>

definition sliceLast :: "nat \<Rightarrow> 'a list \<Rightarrow> 'a list" where
  "sliceLast k xs = (if k = 0 then xs else drop (length xs - k) xs)"

fun blendWeights :: "GoldTimeRange \<Rightarrow> real" where
  "blendWeights Range1h = 0.3"
| "blendWeights Range6h = 0.5"
| "blendWeights Range24h = 0.7"
| "blendWeights Range7d = 1.0"

text \<open>The blend of the local slope with the global one, as a function of the local weight
  (which \<open>calculatePrediction\<close> reads from \<open>blendWeights\<close>).\<close>

definition blendSlopes :: "real \<Rightarrow> real \<Rightarrow> real \<Rightarrow> int \<Rightarrow> real" where
  "blendSlopes localSlope localWeight gSlope interval =
     (let globalWeight = 1 - localWeight;
          localIntervalHours = real_of_int interval / (60 * 60 * 1000);
          scaledGlobalSlope = gSlope * localIntervalHours
      in (localSlope * localWeight) + (scaledGlobalSlope * globalWeight))"

definition adjustPredictionWithSentiment :: "real \<Rightarrow> SentimentResult \<Rightarrow> real" where
  "adjustPredictionWithSentiment baseValue sentimentResult =
     (if confidence sentimentResult < 0.3 then baseValue
      else (let adjustmentFactor = 1 + (adjustmentPercent sentimentResult / 100)
            in baseValue * adjustmentFactor))"

text \<open>The regression over the lookback window, and the blended slope before any
  sentiment adjustment.\<close>

definition localRegression :: "GoldPriceChart \<Rightarrow> RegressionResult" where
  "localRegression c =
     (let config = PREDICTION_CONFIG (currentTimeRange c);
          d = data (state c);
          lookbackData = sliceLast (min (lookback config) (length d)) d;
          prices = map close lookbackData
      in linearRegression prices)"

definition blendedSlopeOf :: "GoldPriceChart \<Rightarrow> real" where
  "blendedSlopeOf c =
     blendSlopes (slope (localRegression c)) (blendWeights (currentTimeRange c))
       (globalSlope c) (intervalMs (PREDICTION_CONFIG (currentTimeRange c)))"

text \<open>One round of the projection loop. \<open>this.state.sentiment!\<close> is read only when the
  sentiment adjustment is not 0; on a null sentiment that read would raise a TypeError.\<close>

definition projectPoint ::
  "GoldPriceDataPoint \<Rightarrow> PredictionConfig \<Rightarrow> real \<Rightarrow> real \<Rightarrow> SentimentResult option \<Rightarrow> nat
     \<Rightarrow> error + PredictionPoint" where
  "projectPoint lastPoint config bSlope sAdj sent i =
     (let futureTimestamp = timestamp lastPoint + int i * intervalMs config;
          projectedValue = close lastPoint + (bSlope * real i)
      in if sAdj \<noteq> 0 then
           (case sent of
              None \<Rightarrow> Inl (TypeError ''Cannot read properties of null'')
            | Some s \<Rightarrow>
                Inr \<lparr>pp_timestamp = futureTimestamp,
                     pp_value = adjustPredictionWithSentiment projectedValue s\<rparr>)
         else Inr \<lparr>pp_timestamp = futureTimestamp, pp_value = projectedValue\<rparr>)"

fun projectLoop ::
  "GoldPriceDataPoint \<Rightarrow> PredictionConfig \<Rightarrow> real \<Rightarrow> real \<Rightarrow> SentimentResult option
     \<Rightarrow> nat list \<Rightarrow> PredictionPoint list \<Rightarrow> error + PredictionPoint list" where
  "projectLoop lastPoint config bSlope sAdj sent [] pts = Inr pts"
| "projectLoop lastPoint config bSlope sAdj sent (i # rest) pts =
     (case projectPoint lastPoint config bSlope sAdj sent i of
        Inl e \<Rightarrow> Inl e
      | Inr p \<Rightarrow> projectLoop lastPoint config bSlope sAdj sent rest (pts @ [p]))"

text \<open>The sentiment block: when a sentiment is present with confidence at least 0.3 the
  slope is nudged; the result is the slope, the adjustment and the summary to report.\<close>

definition applySentiment ::
  "SentimentResult option \<Rightarrow> GoldPriceDataPoint \<Rightarrow> PredictionConfig \<Rightarrow> real
     \<Rightarrow> real \<times> real \<times> string" where
  "applySentiment sent lastPoint config blended =
     (case sent of
        None \<Rightarrow> (blended, 0, [])
      | Some s \<Rightarrow>
          if confidence s \<ge> 0.3 then
            (let priceAdjustment = close lastPoint * (adjustmentPercent s / 100);
                 slopeAdjustment = priceAdjustment / real (projectionPoints config)
             in (blended + slopeAdjustment, adjustmentPercent s, summary s))
          else (blended, 0, []))"

definition calculatePrediction :: "GoldPriceChart \<Rightarrow> error + PredictionResult option" where
  "calculatePrediction c =
     (let config = PREDICTION_CONFIG (currentTimeRange c);
          d = data (state c)
      in if length d < 10 then Inr None
         else
           (let rSq = rSquared (localRegression c);
                blended = blendedSlopeOf c;
                sent = sentiment (state c);
                lastPoint = last d
            in case applySentiment sent lastPoint config blended of
                 (bSlope, sAdj, sSummary) \<Rightarrow>
                   (case projectLoop lastPoint config bSlope sAdj sent
                           [1 ..< Suc (projectionPoints config)]
                           [\<lparr>pp_timestamp = timestamp lastPoint, pp_value = close lastPoint\<rparr>] of
                      Inl e \<Rightarrow> Inl e
                    | Inr pts \<Rightarrow>
                        (let lastPredPoint = last pts;
                             totalChange = pp_value lastPredPoint - close lastPoint;
                             totalChangePercent = percentOf totalChange (close lastPoint);
                             tr = (if js_gt totalChangePercent 0.05 then Bullish
                                   else if js_lt totalChangePercent (- 0.05) then Bearish
                                   else Neutral)
                         in Inr (Some \<lparr>points = pts, pr_slope = bSlope, pr_trend = tr,
                                        pr_confidence = max 0 (min 1 rSq),
                                        sentimentAdjustment = sAdj,
                                        sentimentSummary = sSummary\<rparr>)))))"

section \<open>Chart construction and the price sources\<close>

text \<open>The state set up by the constructor of \<open>GoldPriceChart\<close>.\<close>

definition newChart :: GoldPriceChart where
  "newChart =
     \<lparr>state =
        \<lparr>currentPrice = None, previousClose = None, change = None, changePercent = None,
         trend = Neutral, data = [], lastUpdatedAt = None, error = None, loading = True,
         quickStats = None, prediction = None, sentiment = None, dataSource = Xaut\<rparr>,
      currentTimeRange = Range1h,
      globalSlope = 0\<rparr>"

text \<open>A CoinGecko \<open>[timestamp, price]\<close> pair as a data point: a flat candle without
  volume.\<close>

definition cgPoint :: "int \<times> real \<Rightarrow> GoldPriceDataPoint" where
  "cgPoint p =
     \<lparr>timestamp = fst p, openPrice = snd p, high = snd p, low = snd p, close = snd p,
      volume = 0\<rparr>"

subsection \<open>Network requests and responses\<close>

text \<open>
  Every \<open>fetch(url)\<close> of the modelled code adds one request to a log, so that the number
  of calls to a provider can be stated. The responses are arguments. A CoinGecko response:
  the request is rejected (network failure or the 10 s abort), or the status is not ok, or
  the body is read: invalid JSON, no \<open>prices\<close> array, a \<open>prices\<close> array with an entry
  that cannot be indexed (a TypeError in \<open>.map\<close>), or an array of
  \<open>[timestampMs, price]\<close> pairs. A Yahoo chart response likewise; its quote holds five
  optional arrays whose entries may be null.
\<close>

datatype request = ReqCoinGecko string | ReqYahoo string string

datatype cg_body =
    CgInvalid string
  | CgNoPrices
  | CgPricesBad string
  | CgPrices "(int \<times> real) list"

datatype cg_response =
    CgRejected string
  | CgNotOk nat
  | CgOk cg_body

record YahooQuote =
  q_open :: "real option list option"
  q_high :: "real option list option"
  q_low :: "real option list option"
  q_close :: "real option list option"
  q_volume :: "real option list option"

datatype yahoo_body =
    YInvalid string
  | YNoResult
  | YBad string
  | YChart "int list" YahooQuote

text \<open>A response that is not ok carries its status and the \<open>error\<close> field of its JSON
  body when that field is there and truthy.\<close>

datatype yahoo_response =
    YRejected string
  | YNotOk nat "string option"
  | YOk yahoo_body


text \<open>What a state-changing async method leaves behind: the error it raised if any, the
  chart as it is at that moment, and the requests it made.\<close>

record Outcome =
  raised :: "error option"
  chart :: GoldPriceChart
  requests :: "request list"









subsection \<open>Primary source: fetchXautFromCoinGecko\<close>



subsection \<open>Secondary source: fetchFromYahooFinance\<close>

text \<open>\<open>arr?.[i] ?? 0\<close>.\<close>

definition quoteAt :: "real option list option \<Rightarrow> nat \<Rightarrow> real" where
  "quoteAt arr i =
     (case arr of
        None \<Rightarrow> 0
      | Some xs \<Rightarrow> if i < length xs then (case xs ! i of None \<Rightarrow> 0 | Some v \<Rightarrow> v) else 0)"



subsection \<open>Quick-stats aggregator: fetchQuickStats\<close>

record StatPoint =
  sp_timestamp :: int
  sp_close :: real
  sp_high :: real
  sp_low :: real

text \<open>The first attempt, inside its own \<open>try\<close>: any failure leaves the window empty.\<close>

definition statsFromCoinGecko :: "cg_response \<Rightarrow> StatPoint list" where
  "statsFromCoinGecko resp =
     (case resp of
        CgRejected msg \<Rightarrow> []
      | CgNotOk status \<Rightarrow> []
      | CgOk (CgInvalid msg) \<Rightarrow> []
      | CgOk CgNoPrices \<Rightarrow> []
      | CgOk (CgPricesBad msg) \<Rightarrow> []
      | CgOk (CgPrices prices) \<Rightarrow>
          map (\<lambda>p. \<lparr>sp_timestamp = fst p, sp_close = snd p, sp_high = snd p, sp_low = snd p\<rparr>)
            prices)"

text \<open>The fallback, outside that \<open>try\<close>: a rejected request or an unreadable body
  raises.\<close>

definition statsFromYahoo :: "yahoo_response \<Rightarrow> error + StatPoint list" where
  "statsFromYahoo resp =
     (case resp of
        YRejected msg \<Rightarrow> Inl (FetchRejected msg)
      | YNotOk status errorText \<Rightarrow> Inr []
      | YOk (YInvalid msg) \<Rightarrow> Inl (JsonRejected msg)
      | YOk YNoResult \<Rightarrow> Inr []
      | YOk (YBad msg) \<Rightarrow> Inl (TypeError msg)
      | YOk (YChart timestamps quote) \<Rightarrow>
          Inr (filter (\<lambda>p. sp_close p > 0)
                 (map (\<lambda>(i, ts).
                         \<lparr>sp_timestamp = ts * 1000,
                          sp_close = quoteAt (q_close quote) i,
                          sp_high = quoteAt (q_high quote) i,
                          sp_low = quoteAt (q_low quote) i\<rparr>)
                      (enumerate 0 timestamps))))"

text \<open>The long reference window \<open>data24h\<close> once both attempts are over, with the requests
  made.\<close>

definition statsWindow :: "cg_response \<Rightarrow> yahoo_response \<Rightarrow> (error + StatPoint list) \<times> request list" where
  "statsWindow cg yh =
     (let first = statsFromCoinGecko cg
      in if length first = 0
         then (statsFromYahoo yh, [ReqCoinGecko ''7'', ReqYahoo ''1h'' ''5d''])
         else (Inr first, [ReqCoinGecko ''7'']))"

text \<open>The weekly high and low loop; \<open>None\<close> stands for the initial \<open>Infinity\<close> of
  \<open>weeklyLow\<close>.\<close>

fun weeklyLoop :: "StatPoint list \<Rightarrow> real \<times> real option \<Rightarrow> real \<times> real option" where
  "weeklyLoop [] acc = acc"
| "weeklyLoop (p # ps) (weeklyHi, weeklyLo) =
     weeklyLoop ps
       (if sp_high p > weeklyHi then sp_high p else weeklyHi,
        if (case weeklyLo of None \<Rightarrow> True | Some l \<Rightarrow> sp_low p < l) \<and> sp_low p > 0
        then Some (sp_low p) else weeklyLo)"

definition computeQuickStats :: "int \<Rightarrow> StatPoint list \<Rightarrow> QuickStats" where
  "computeQuickStats now data24h =
     (let cutoff7d = now - 7 * 24 * 60 * 60 * 1000;
          last7d = filter (\<lambda>p. sp_timestamp p \<ge> cutoff7d) data24h;
          (weeklyHi, weeklyLo) = weeklyLoop last7d (0, None);
          cutoff24h = now - 24 * 60 * 60 * 1000;
          last24h = filter (\<lambda>p. sp_timestamp p \<ge> cutoff24h) data24h;
          (change, changePercent, current) =
            (if length last24h > 0 then
               (let first = hd last24h; latest = last last24h
                in (sp_close latest - sp_close first,
                    percentOf (sp_close latest - sp_close first) (sp_close first),
                    sp_close latest))
             else if length data24h > 0 then (0, Fin 0, sp_close (last data24h))
             else (0, Fin 0, 0));
          tr = (if js_gt changePercent 0.3 then Bullish
                else if js_lt changePercent (- 0.3) then Bearish
                else Neutral)
      in \<lparr>qs_currentPrice = current,
          change24h = change,
          changePercent24h = changePercent,
          weeklyHigh = (if weeklyHi > 0 then weeklyHi else current),
          weeklyLow = (case weeklyLo of Some l \<Rightarrow> l | None \<Rightarrow> current),
          qs_trend = tr\<rparr>)"

text \<open>\<open>fetchQuickStats\<close>: its outer \<open>catch\<close> logs the error and returns, and an empty
  window returns before anything is stored.\<close>

definition fetchQuickStats :: "GoldPriceChart \<Rightarrow> int \<Rightarrow> cg_response \<Rightarrow> yahoo_response \<Rightarrow> Outcome" where
  "fetchQuickStats c now cg yh =
     (case statsWindow cg yh of
        (Inl e, reqs) \<Rightarrow> \<lparr>raised = None, chart = c, requests = reqs\<rparr>
      | (Inr data24h, reqs) \<Rightarrow>
          if length data24h = 0 then \<lparr>raised = None, chart = c, requests = reqs\<rparr>
          else \<lparr>raised = None,
                chart = c\<lparr>state := (state c)\<lparr>quickStats := Some (computeQuickStats now data24h)\<rparr>\<rparr>,
                requests = reqs\<rparr>)"

subsection \<open>Quote source orchestration: fetchData\<close>







section \<open>Market quotes (src/services/market/index.ts)\<close>



record MarketData =
  symbol :: string
  name :: string
  display :: string
  price :: "real option"
  md_change :: "real option"
  sparkline :: "real list option"









section \<open>Properties of the sentiment engine\<close>

lemma multiplierOf_ge_1: "1 \<le> multiplierOf k"
  by (simp add: multiplierOf_def HIGH_IMPACT_MULTIPLIERS_def)

lemma scanBullish_weight: "h_weight acc \<le> h_weight (scanBullish lower kws acc)"
proof (induction kws arbitrary: acc)
  case Nil
  show ?case by simp
next
  case (Cons k kws)
  have "h_weight acc \<le> h_weight (if includesStr lower k
        then (let multiplier = multiplierOf k
              in \<lparr>h_score = h_score acc + 0.3 * multiplier,
                  h_weight = max (h_weight acc) multiplier,
                  h_triggers = h_triggers acc @ [CHR ''+'' # k]\<rparr>)
        else acc)"
    by (simp add: Let_def)
  also have "\<dots> \<le> h_weight (scanBullish lower (k # kws) acc)"
    using Cons.IH by simp
  finally show ?case .
qed

lemma scanBearish_weight: "h_weight acc \<le> h_weight (scanBearish lower kws acc)"
proof (induction kws arbitrary: acc)
  case Nil
  show ?case by simp
next
  case (Cons k kws)
  have "h_weight acc \<le> h_weight (if includesStr lower k
        then (let multiplier = multiplierOf k
              in \<lparr>h_score = h_score acc - 0.3 * multiplier,
                  h_weight = max (h_weight acc) multiplier,
                  h_triggers = h_triggers acc @ [CHR ''-'' # k]\<rparr>)
        else acc)"
    by (simp add: Let_def)
  also have "\<dots> \<le> h_weight (scanBearish lower (k # kws) acc)"
    using Cons.IH by simp
  finally show ?case .
qed

lemma analyzeHeadline_weight: "1 \<le> h_weight (analyzeHeadline h)"
proof -
  let ?a0 = "\<lparr>h_score = 0, h_weight = 1, h_triggers = []\<rparr>"
  let ?a1 = "scanBullish (toLowerCase h) BULLISH_KEYWORDS ?a0"
  have "1 \<le> h_weight ?a1"
    using scanBullish_weight [of ?a0 "toLowerCase h" BULLISH_KEYWORDS] by simp
  also have "\<dots> \<le> h_weight (scanBearish (toLowerCase h) BEARISH_KEYWORDS ?a1)"
    by (rule scanBearish_weight)
  finally show ?thesis by (simp add: analyzeHeadline_def Let_def)
qed

lemma accumulate_weight:
  "totalWeight t + real (length hs) \<le> totalWeight (accumulate hs t)"
proof (induction hs arbitrary: t)
  case Nil
  show ?case by simp
next
  case (Cons h hs)
  let ?t' = "\<lparr>totalScore = totalScore t + h_score (analyzeHeadline h) * h_weight (analyzeHeadline h),
              totalWeight = totalWeight t + h_weight (analyzeHeadline h),
              allTriggers = allTriggers t @ h_triggers (analyzeHeadline h)\<rparr>"
  have "totalWeight t + real (length (h # hs)) \<le> totalWeight ?t' + real (length hs)"
    using analyzeHeadline_weight [of h] by simp
  also have "\<dots> \<le> totalWeight (accumulate hs ?t')"
    by (rule Cons.IH)
  finally show ?case by (simp add: Let_def)
qed

text \<open>
  C10. Every headline's weight is at least 1. Hence, for a non-empty headline list, the
  denominator of the overall score (the sum of the weights) is at least the number of
  headlines and strictly positive, and the score is the quotient of the two totals: the
  branch that returns 0 for a zero denominator is not taken.
\<close>

theorem sentiment_weight_denominator:
  "1 \<le> h_weight (analyzeHeadline h) \<and>
   (hs \<noteq> [] \<longrightarrow>
      real (length hs) \<le> totalWeight (totalsOf hs) \<and>
      0 < totalWeight (totalsOf hs) \<and>
      score (analyzeHeadlines now hs) = totalScore (totalsOf hs) / totalWeight (totalsOf hs))"
proof (intro conjI impI)
  show "1 \<le> h_weight (analyzeHeadline h)" by (rule analyzeHeadline_weight)
next
  assume ne: "hs \<noteq> []"
  show le: "real (length hs) \<le> totalWeight (totalsOf hs)"
    using accumulate_weight [of "\<lparr>totalScore = 0, totalWeight = 0, allTriggers = []\<rparr>" hs]
    by (simp add: totalsOf_def)
  from ne have "0 < real (length hs)" by simp
  with le show pos: "0 < totalWeight (totalsOf hs)" by linarith
  from ne pos
  show "score (analyzeHeadlines now hs) = totalScore (totalsOf hs) / totalWeight (totalsOf hs)"
    by (simp add: analyzeHeadlines_def Let_def)
qed

theorem sentiment_weight_denominator_witness:
  "[''Gold rally amid war fears''] \<noteq> [] \<and>
   real (length [''Gold rally amid war fears''])
     \<le> totalWeight (totalsOf [''Gold rally amid war fears'']) \<and>
   totalWeight (totalsOf [''Gold rally amid war fears'']) = 2 \<and>
   score (analyzeHeadlines 0 [''Gold rally amid war fears'']) = 1"
proof -
  have ne: "[''Gold rally amid war fears''] \<noteq> []" by simp
  have tw: "totalWeight (totalsOf [''Gold rally amid war fears'']) = 2" by code_simp
  have ts: "totalScore (totalsOf [''Gold rally amid war fears'']) = 2" by code_simp
  from sentiment_weight_denominator [of "''x''" "[''Gold rally amid war fears'']" 0] ne tw ts
  show ?thesis by simp
qed

text \<open>
  C6, as amended. On the empty headline list \<open>analyzeHeadlines\<close> returns score 0,
  adjustment 0, confidence 0, no trigger words and no headlines, with the summary
  "No headlines to analyze" (not the empty string).
\<close>

theorem analyzeHeadlines_empty:
  "analyzeHeadlines now [] =
     \<lparr>score = 0, adjustmentPercent = 0, confidence = 0, triggerWords = [],
      summary = ''No headlines to analyze'', headlines = [], lastUpdated = now\<rparr>"
  by (simp add: analyzeHeadlines_def)

theorem analyzeHeadlines_empty_summary_counterexample:
  "summary (analyzeHeadlines 0 []) \<noteq> []"
  by (simp add: analyzeHeadlines_def)


lemma fetchSentimentBody_failed:
  "fetchFailed resp \<Longrightarrow>
   try_catch (fetchSentimentBody cache later resp)
     (\<lambda>e. Inr (getFallbackSentiment cache later, cache))
   = Inr (getFallbackSentiment cache later, cache)"
proof (cases resp)
  case (GdeltRejected msg)
  then show ?thesis by (simp add: fetchSentimentBody_def try_catch_def)
next
  case GdeltNotOk
  then show ?thesis by (simp add: fetchSentimentBody_def try_catch_def)
next
  case (GdeltOk body)
  assume failed: "fetchFailed resp"
  show ?thesis
  proof (cases body)
    case (BodyArticles articles)
    with GdeltOk failed show ?thesis
      by (simp add: fetchSentimentBody_def try_catch_def)
  qed (simp_all add: GdeltOk fetchSentimentBody_def try_catch_def)
qed

lemma fetchAndAnalyzeSentiment_returns:
  "\<exists>r c'. fetchAndAnalyzeSentiment cache now later resp = Inr (r, c')"
proof -
  have "\<exists>r c'. try_catch (fetchSentimentBody cache later resp)
                   (\<lambda>e. Inr (getFallbackSentiment cache later, cache)) = Inr (r, c')"
  proof (cases "fetchSentimentBody cache later resp")
    case (Inl e)
    then show ?thesis by (simp add: try_catch_def)
  next
    case (Inr v)
    then show ?thesis by (cases v) (simp add: try_catch_def)
  qed
  then show ?thesis
    by (cases "cachedSentiment cache") (auto simp: fetchAndAnalyzeSentiment_def Let_def)
qed

lemma fetchAndAnalyzeSentiment_stale:
  "\<not> cacheFresh cache now \<Longrightarrow>
   fetchAndAnalyzeSentiment cache now later resp
     = try_catch (fetchSentimentBody cache later resp)
         (\<lambda>e. Inr (getFallbackSentiment cache later, cache))"
  by (cases "cachedSentiment cache")
     (simp_all add: fetchAndAnalyzeSentiment_def cacheFresh_def Let_def)

text \<open>
  C5. \<open>fetchAndAnalyzeSentiment\<close> always returns a result, never an error. When the
  cache is not fresh (so the request is made) and the fetch fails (the request is rejected
  or times out, the status is not ok, the body cannot be read, or no headline survives), it
  returns the cached result with its confidence multiplied by 0.5 if there is a cached
  result, and otherwise the neutral result (score 0, adjustment 0, confidence 0, empty
  summary); the cache is left as it was.
\<close>

theorem fetchAndAnalyzeSentiment_degrades:
  "(\<exists>r c'. fetchAndAnalyzeSentiment cache now later resp = Inr (r, c')) \<and>
   (\<not> cacheFresh cache now \<and> fetchFailed resp \<longrightarrow>
      (\<forall>c. cachedSentiment cache = Some c \<longrightarrow>
           fetchAndAnalyzeSentiment cache now later resp
             = Inr (c\<lparr>confidence := confidence c * 0.5\<rparr>, cache)) \<and>
      (cachedSentiment cache = None \<longrightarrow>
           fetchAndAnalyzeSentiment cache now later resp
             = Inr (\<lparr>score = 0, adjustmentPercent = 0, confidence = 0, triggerWords = [],
                      summary = [], headlines = [], lastUpdated = later\<rparr>, cache)))"
proof (intro conjI impI allI)
  show "\<exists>r c'. fetchAndAnalyzeSentiment cache now later resp = Inr (r, c')"
    by (rule fetchAndAnalyzeSentiment_returns)
next
  fix c
  assume h: "\<not> cacheFresh cache now \<and> fetchFailed resp" and c: "cachedSentiment cache = Some c"
  from h have "fetchAndAnalyzeSentiment cache now later resp
                 = Inr (getFallbackSentiment cache later, cache)"
    by (simp add: fetchAndAnalyzeSentiment_stale fetchSentimentBody_failed)
  with c show "fetchAndAnalyzeSentiment cache now later resp
                 = Inr (c\<lparr>confidence := confidence c * 0.5\<rparr>, cache)"
    by (simp add: getFallbackSentiment_def)
next
  assume h: "\<not> cacheFresh cache now \<and> fetchFailed resp" and c: "cachedSentiment cache = None"
  from h have "fetchAndAnalyzeSentiment cache now later resp
                 = Inr (getFallbackSentiment cache later, cache)"
    by (simp add: fetchAndAnalyzeSentiment_stale fetchSentimentBody_failed)
  with c show "fetchAndAnalyzeSentiment cache now later resp
                 = Inr (\<lparr>score = 0, adjustmentPercent = 0, confidence = 0, triggerWords = [],
                          summary = [], headlines = [], lastUpdated = later\<rparr>, cache)"
    by (simp add: getFallbackSentiment_def)
qed

theorem fetchAndAnalyzeSentiment_degrades_witness:
  "fetchAndAnalyzeSentiment
     \<lparr>cachedSentiment = Some \<lparr>score = 1 / 2, adjustmentPercent = 3 / 2, confidence = 4 / 5,
         triggerWords = [''+war''], summary = ''Bullish for Gold: +war'',
         headlines = [''War fears lift gold''], lastUpdated = 1000\<rparr>,
       cacheTimestamp = 1000\<rparr> 400000 400500 GdeltNotOk
   = Inr (\<lparr>score = 1 / 2, adjustmentPercent = 3 / 2, confidence = 2 / 5,
            triggerWords = [''+war''], summary = ''Bullish for Gold: +war'',
            headlines = [''War fears lift gold''], lastUpdated = 1000\<rparr>,
          \<lparr>cachedSentiment = Some \<lparr>score = 1 / 2, adjustmentPercent = 3 / 2, confidence = 4 / 5,
              triggerWords = [''+war''], summary = ''Bullish for Gold: +war'',
              headlines = [''War fears lift gold''], lastUpdated = 1000\<rparr>,
            cacheTimestamp = 1000\<rparr>)
   \<and> fetchAndAnalyzeSentiment \<lparr>cachedSentiment = None, cacheTimestamp = 0\<rparr> 5 6
       (GdeltOk (BodyArticles [Some ''too short'', None]))
   = Inr (\<lparr>score = 0, adjustmentPercent = 0, confidence = 0, triggerWords = [],
            summary = [], headlines = [], lastUpdated = 6\<rparr>,
          \<lparr>cachedSentiment = None, cacheTimestamp = 0\<rparr>)"
  using
    fetchAndAnalyzeSentiment_degrades
      [of "\<lparr>cachedSentiment = Some \<lparr>score = 1 / 2, adjustmentPercent = 3 / 2, confidence = 4 / 5,
               triggerWords = [''+war''], summary = ''Bullish for Gold: +war'',
               headlines = [''War fears lift gold''], lastUpdated = 1000\<rparr>,
             cacheTimestamp = 1000\<rparr>" 400000 400500 GdeltNotOk]
    fetchAndAnalyzeSentiment_degrades
      [of "\<lparr>cachedSentiment = None, cacheTimestamp = 0\<rparr>" 5 6
          "GdeltOk (BodyArticles [Some ''too short'', None])"]
  by (simp add: cacheFresh_def CACHE_TTL_def survivingHeadlines_def)

section \<open>Properties of the regression engine\<close>

lemma sumLoop_sumX:
  "sumX (sumLoop ys i s) = sumX s + (\<Sum>j<length ys. real (i + j))"
  by (induction ys arbitrary: i s) (simp_all add: sum.lessThan_Suc_shift add_ac del: sum.lessThan_Suc)



lemma sumLoop_sumX2:
  "sumX2 (sumLoop ys i s) = sumX2 s + (\<Sum>j<length ys. real (i + j) * real (i + j))"
  by (induction ys arbitrary: i s) (simp_all add: sum.lessThan_Suc_shift add_ac del: sum.lessThan_Suc)



lemma sum_index: "2 * (\<Sum>j<n. real j) = real n * (real n - 1)"
  by (induction n) (simp_all add: algebra_simps)

lemma sum_index_sq: "6 * (\<Sum>j<n. real j * real j) = real n * (real n - 1) * (2 * real n - 1)"
  by (induction n) (simp_all add: algebra_simps)

lemma denominator_closed:
  "12 * (real n * (\<Sum>j<n. real j * real j) - (\<Sum>j<n. real j) * (\<Sum>j<n. real j))
     = (real n)\<^sup>2 * ((real n)\<^sup>2 - 1)"
proof -
  define A where "A = (\<Sum>j<n. real j)"
  define B where "B = (\<Sum>j<n. real j * real j)"
  have a: "2 * A = real n * (real n - 1)" unfolding A_def by (rule sum_index)
  have b: "6 * B = real n * (real n - 1) * (2 * real n - 1)" unfolding B_def by (rule sum_index_sq)
  have "12 * (real n * B - A * A) = 2 * real n * (6 * B) - 3 * ((2 * A) * (2 * A))"
    by (simp add: algebra_simps)
  also have "\<dots> = (real n)\<^sup>2 * ((real n)\<^sup>2 - 1)"
    unfolding a b by (simp add: algebra_simps power2_eq_square)
  finally show ?thesis unfolding A_def B_def .
qed


lemma sumsOf_sumX: "sumX (sumsOf vs) = (\<Sum>j<length vs. real j)"
  by (simp add: sumsOf_def sumLoop_sumX)



lemma sumsOf_sumX2: "sumX2 (sumsOf vs) = (\<Sum>j<length vs. real j * real j)"
  by (simp add: sumsOf_def sumLoop_sumX2)

lemma denominator_pos:
  assumes "2 \<le> length vs"
  shows "0 < denominatorOf (length vs) (sumsOf vs)"
proof -
  let ?n = "real (length vs)"
  have n2: "2 \<le> ?n" using assms by simp
  have "2\<^sup>2 \<le> ?n\<^sup>2" using n2 by (intro power_mono) simp_all
  then have four: "4 \<le> ?n\<^sup>2" by simp
  have "0 < ?n\<^sup>2" and "0 < ?n\<^sup>2 - 1" using four by linarith+
  then have "0 < ?n\<^sup>2 * (?n\<^sup>2 - 1)" by (rule mult_pos_pos)
  then have "0 < 12 * denominatorOf (length vs) (sumsOf vs)"
    using denominator_closed [of "length vs"]
    by (simp add: denominatorOf_def sumsOf_sumX sumsOf_sumX2)
  then show ?thesis by simp
qed













text \<open>
  C4. \<open>linearRegression\<close> is a total function with no raising path. On the empty input it
  returns slope 0, intercept 0, rSquared 0; on a single value it returns slope 0, that
  value as intercept, rSquared 0. Once the sums are computed, a zero denominator
  \<open>n * sumX2 - sumX * sumX\<close> gives slope 0, intercept \<open>sumY / n\<close> and rSquared 0; and on
  any non-empty input whose computed denominator is zero the result is slope 0,
  intercept mean(y), rSquared 0.
\<close>

theorem linearRegression_degenerate:
  "linearRegression [] = \<lparr>slope = 0, intercept = 0, rSquared = 0\<rparr>
   \<and> linearRegression [v] = \<lparr>slope = 0, intercept = v, rSquared = 0\<rparr>
   \<and> (length values < 2 \<longrightarrow>
        slope (linearRegression values) = 0 \<and> rSquared (linearRegression values) = 0
        \<and> intercept (linearRegression values) = (if values = [] then 0 else values ! 0))
   \<and> (2 \<le> length values \<and> denominatorOf (length values) s = 0 \<longrightarrow>
        regressionFromSums values s
          = \<lparr>slope = 0, intercept = sumY s / real (length values), rSquared = 0\<rparr>)
   \<and> (values \<noteq> [] \<and> denominatorOf (length values) (sumsOf values) = 0 \<longrightarrow>
        linearRegression values
          = \<lparr>slope = 0, intercept = sumY (sumsOf values) / real (length values),
             rSquared = 0\<rparr>)"
proof (intro conjI impI)
  show "linearRegression [] = \<lparr>slope = 0, intercept = 0, rSquared = 0\<rparr>"
    by (simp add: linearRegression_def)
  show "linearRegression [v] = \<lparr>slope = 0, intercept = v, rSquared = 0\<rparr>"
    by (simp add: linearRegression_def)
next
  assume "length values < 2"
  then show "slope (linearRegression values) = 0"
    and "rSquared (linearRegression values) = 0"
    and "intercept (linearRegression values) = (if values = [] then 0 else values ! 0)"
    by (simp_all add: linearRegression_def split: list.splits)
next
  assume "2 \<le> length values \<and> denominatorOf (length values) s = 0"
  then show "regressionFromSums values s
          = \<lparr>slope = 0, intercept = sumY s / real (length values), rSquared = 0\<rparr>"
    by (simp add: regressionFromSums_def)
next
  assume h: "values \<noteq> [] \<and> denominatorOf (length values) (sumsOf values) = 0"
  have short: "length values < 2"
  proof (rule ccontr)
    assume "\<not> length values < 2"
    then have "2 \<le> length values" by simp
    from denominator_pos [OF this] h show False by simp
  qed
  with h obtain v where v: "values = [v]"
    by (cases "values") (auto simp: less_Suc_eq)
  show "linearRegression values
          = \<lparr>slope = 0, intercept = sumY (sumsOf values) / real (length values),
             rSquared = 0\<rparr>"
    by (simp add: v linearRegression_def sumsOf_def)
qed

theorem linearRegression_degenerate_witness:
  "linearRegression [5] = \<lparr>slope = 0, intercept = 5, rSquared = 0\<rparr>
   \<and> slope (linearRegression [5]) = 0 \<and> rSquared (linearRegression [5]) = 0
   \<and> intercept (linearRegression [5]) = 5
   \<and> regressionFromSums [1, 2]
        \<lparr>sumX = 2, sumY = 3, sumXY = 2, sumX2 = 2, sumY2 = 5\<rparr>
      = \<lparr>slope = 0, intercept = 3 / 2, rSquared = 0\<rparr>
   \<and> denominatorOf (length [5 :: real]) (sumsOf [5]) = 0
   \<and> sumY (sumsOf [5]) / real (length [5 :: real]) = 5"
proof -
  have d1: "denominatorOf (length [1, 2 :: real])
              \<lparr>sumX = 2, sumY = 3, sumXY = 2, sumX2 = 2, sumY2 = 5\<rparr> = 0"
    by (simp add: denominatorOf_def)
  have d2: "denominatorOf (length [5 :: real]) (sumsOf [5]) = 0"
    by (simp add: denominatorOf_def sumsOf_def)
  have m: "sumY (sumsOf [5]) / real (length [5 :: real]) = 5"
    by (simp add: sumsOf_def)
  from linearRegression_degenerate
         [of 5 "[5]" "\<lparr>sumX = 2, sumY = 3, sumXY = 2, sumX2 = 2, sumY2 = 5\<rparr>"]
       linearRegression_degenerate
         [of 5 "[1, 2]" "\<lparr>sumX = 2, sumY = 3, sumXY = 2, sumX2 = 2, sumY2 = 5\<rparr>"]
       d1 d2 m
  show ?thesis by simp
qed

section \<open>Properties of the slope blender and the prediction assembler\<close>

lemma projectLoop_ok:
  assumes "sAdj \<noteq> 0 \<longrightarrow> sent \<noteq> None"
  shows "\<exists>ps. projectLoop lastPoint config bSlope sAdj sent idx pts = Inr (pts @ ps)
              \<and> length ps = length idx"
proof (induction idx arbitrary: pts)
  case Nil
  show ?case by simp
next
  case (Cons i rest)
  have "\<exists>p. projectPoint lastPoint config bSlope sAdj sent i = Inr p"
    using assms by (cases sent; cases "sAdj = 0") (simp_all add: projectPoint_def Let_def)
  then obtain p where p: "projectPoint lastPoint config bSlope sAdj sent i = Inr p" ..
  from Cons.IH [of "pts @ [p]"] obtain ps
    where "projectLoop lastPoint config bSlope sAdj sent rest (pts @ [p]) = Inr ((pts @ [p]) @ ps)"
      and "length ps = length rest"
    by blast
  then have "projectLoop lastPoint config bSlope sAdj sent (i # rest) pts = Inr (pts @ (p # ps))
             \<and> length (p # ps) = length (i # rest)"
    using p by simp
  then show ?case by blast
qed

lemma applySentiment_guard:
  "applySentiment sent lastPoint config blended = (bSlope, sAdj, sSummary)
   \<Longrightarrow> sAdj \<noteq> 0 \<longrightarrow> sent \<noteq> None"
  by (auto simp: applySentiment_def Let_def split: option.splits if_splits)

lemma calculatePrediction_long:
  assumes "10 \<le> length (data (state c))"
  shows "\<exists>r. calculatePrediction c = Inr (Some r)
            \<and> length (points r) = projectionPoints (PREDICTION_CONFIG (currentTimeRange c)) + 1
            \<and> points r ! 0 = \<lparr>pp_timestamp = timestamp (last (data (state c))),
                               pp_value = close (last (data (state c)))\<rparr>
            \<and> pr_slope r = fst (applySentiment (sentiment (state c)) (last (data (state c)))
                                 (PREDICTION_CONFIG (currentTimeRange c)) (blendedSlopeOf c))"
proof -
  let ?config = "PREDICTION_CONFIG (currentTimeRange c)"
  let ?lp = "last (data (state c))"
  let ?anchor = "\<lparr>pp_timestamp = timestamp ?lp, pp_value = close ?lp\<rparr>"
  obtain bSlope sAdj sSummary
    where ap: "applySentiment (sentiment (state c)) ?lp ?config (blendedSlopeOf c)
                 = (bSlope, sAdj, sSummary)"
    by (cases "applySentiment (sentiment (state c)) ?lp ?config (blendedSlopeOf c)") auto
  from projectLoop_ok [OF applySentiment_guard [OF ap],
      of ?lp ?config bSlope "[1 ..< Suc (projectionPoints ?config)]" "[?anchor]"]
  obtain ps where ps: "projectLoop ?lp ?config bSlope sAdj (sentiment (state c))
                         [1 ..< Suc (projectionPoints ?config)] [?anchor] = Inr ([?anchor] @ ps)"
    and len: "length ps = length [1 ..< Suc (projectionPoints ?config)]"
    by blast
  have n: "\<not> length (data (state c)) < 10" using assms by simp
  show ?thesis
    using n ap ps len by (simp add: calculatePrediction_def Let_def)
qed

text \<open>
  C1. On a series of 9 points or fewer \<open>calculatePrediction\<close> returns null, and on a
  series of at least 10 points it returns a result whose point list has
  \<open>projectionPoints + 1\<close> entries, the first being the timestamp and close of the last
  historical point unchanged. In neither case does it raise.
\<close>

theorem calculatePrediction_points:
  "(length (data (state c)) \<le> 9 \<longrightarrow> calculatePrediction c = Inr None)
   \<and> (10 \<le> length (data (state c)) \<longrightarrow>
        (\<exists>r. calculatePrediction c = Inr (Some r)
           \<and> length (points r) = projectionPoints (PREDICTION_CONFIG (currentTimeRange c)) + 1
           \<and> points r ! 0 = \<lparr>pp_timestamp = timestamp (last (data (state c))),
                              pp_value = close (last (data (state c)))\<rparr>))"
proof (intro conjI impI)
  assume "length (data (state c)) \<le> 9"
  then show "calculatePrediction c = Inr None"
    by (simp add: calculatePrediction_def Let_def)
next
  assume "10 \<le> length (data (state c))"
  from calculatePrediction_long [OF this]
  show "\<exists>r. calculatePrediction c = Inr (Some r)
           \<and> length (points r) = projectionPoints (PREDICTION_CONFIG (currentTimeRange c)) + 1
           \<and> points r ! 0 = \<lparr>pp_timestamp = timestamp (last (data (state c))),
                              pp_value = close (last (data (state c)))\<rparr>"
    by blast
qed

theorem calculatePrediction_points_witness:
  "calculatePrediction
     (newChart\<lparr>state := (state newChart)\<lparr>data := map cgPoint
        [(0, 100), (60000, 101), (120000, 102), (180000, 103), (240000, 104),
         (300000, 105), (360000, 106), (420000, 107), (480000, 108)]\<rparr>\<rparr>) = Inr None
   \<and> (\<exists>r. calculatePrediction
             (newChart\<lparr>state := (state newChart)\<lparr>data := map cgPoint
                [(0, 100), (60000, 101), (120000, 102), (180000, 103), (240000, 104),
                 (300000, 105), (360000, 106), (420000, 107), (480000, 108),
                 (540000, 109)]\<rparr>\<rparr>) = Inr (Some r)
          \<and> length (points r) = 4
          \<and> points r ! 0 = \<lparr>pp_timestamp = 540000, pp_value = 109\<rparr>)"
  using
    calculatePrediction_points
      [of "newChart\<lparr>state := (state newChart)\<lparr>data := map cgPoint
             [(0, 100), (60000, 101), (120000, 102), (180000, 103), (240000, 104),
              (300000, 105), (360000, 106), (420000, 107), (480000, 108)]\<rparr>\<rparr>"]
    calculatePrediction_points
      [of "newChart\<lparr>state := (state newChart)\<lparr>data := map cgPoint
             [(0, 100), (60000, 101), (120000, 102), (180000, 103), (240000, 104),
              (300000, 105), (360000, 106), (420000, 107), (480000, 108),
              (540000, 109)]\<rparr>\<rparr>"]
  by (simp add: newChart_def cgPoint_def)

text \<open>
  C3. The slope blend computed before any sentiment adjustment first rescales the global
  slope by (the active timeframe's interval in milliseconds / the milliseconds of one
  hour) and is \<open>local * localWeight + rescaledGlobal * (1 - localWeight)\<close>. At local
  weight 1 it is the local slope, at local weight 0 the rescaled global slope, exactly.
  \<open>calculatePrediction\<close> uses this blend with the weight of the active timeframe (1 for
  the 7-day range, where the blend is the local slope), and the slope it reports is the
  blend plus the sentiment nudge, which is 0 unless a sentiment with confidence at least
  0.3 is present.
\<close>

theorem blendSlopes_endpoints:
  "blendSlopes l w g iv = l * w + (g * (real_of_int iv / 3600000)) * (1 - w)
   \<and> blendSlopes l 1 g iv = l
   \<and> blendSlopes l 0 g iv = g * (real_of_int iv / 3600000)
   \<and> blendedSlopeOf c
       = slope (localRegression c) * blendWeights (currentTimeRange c)
         + (globalSlope c
              * (real_of_int (intervalMs (PREDICTION_CONFIG (currentTimeRange c))) / 3600000))
           * (1 - blendWeights (currentTimeRange c))
   \<and> (currentTimeRange c = Range7d \<longrightarrow> blendedSlopeOf c = slope (localRegression c))
   \<and> (10 \<le> length (data (state c)) \<longrightarrow>
        (\<exists>r. calculatePrediction c = Inr (Some r)
           \<and> pr_slope r
               = blendedSlopeOf c
                 + (case sentiment (state c) of
                      None \<Rightarrow> 0
                    | Some s \<Rightarrow>
                        if confidence s \<ge> 0.3
                        then close (last (data (state c))) * (adjustmentPercent s / 100)
                               / real (projectionPoints (PREDICTION_CONFIG (currentTimeRange c)))
                        else 0)))"
proof (intro conjI impI)
  show "blendSlopes l w g iv = l * w + (g * (real_of_int iv / 3600000)) * (1 - w)"
    by (simp add: blendSlopes_def Let_def)
  show "blendSlopes l 1 g iv = l"
    by (simp add: blendSlopes_def Let_def)
  show "blendSlopes l 0 g iv = g * (real_of_int iv / 3600000)"
    by (simp add: blendSlopes_def Let_def)
  show "blendedSlopeOf c
       = slope (localRegression c) * blendWeights (currentTimeRange c)
         + (globalSlope c
              * (real_of_int (intervalMs (PREDICTION_CONFIG (currentTimeRange c))) / 3600000))
           * (1 - blendWeights (currentTimeRange c))"
    by (simp add: blendedSlopeOf_def blendSlopes_def Let_def)
next
  assume "currentTimeRange c = Range7d"
  then show "blendedSlopeOf c = slope (localRegression c)"
    by (simp add: blendedSlopeOf_def blendSlopes_def Let_def)
next
  assume "10 \<le> length (data (state c))"
  from calculatePrediction_long [OF this] obtain r
    where r: "calculatePrediction c = Inr (Some r)"
      and sl: "pr_slope r = fst (applySentiment (sentiment (state c)) (last (data (state c)))
                                 (PREDICTION_CONFIG (currentTimeRange c)) (blendedSlopeOf c))"
    by blast
  have "fst (applySentiment (sentiment (state c)) (last (data (state c)))
               (PREDICTION_CONFIG (currentTimeRange c)) (blendedSlopeOf c))
          = blendedSlopeOf c
            + (case sentiment (state c) of
                 None \<Rightarrow> 0
               | Some s \<Rightarrow>
                   if confidence s \<ge> 0.3
                   then close (last (data (state c))) * (adjustmentPercent s / 100)
                          / real (projectionPoints (PREDICTION_CONFIG (currentTimeRange c)))
                   else 0)"
    by (simp add: applySentiment_def Let_def split: option.splits)
  with r sl show "\<exists>r. calculatePrediction c = Inr (Some r)
           \<and> pr_slope r
               = blendedSlopeOf c
                 + (case sentiment (state c) of
                      None \<Rightarrow> 0
                    | Some s \<Rightarrow>
                        if confidence s \<ge> 0.3
                        then close (last (data (state c))) * (adjustmentPercent s / 100)
                               / real (projectionPoints (PREDICTION_CONFIG (currentTimeRange c)))
                        else 0)"
    by simp
qed

theorem blendSlopes_endpoints_witness:
  "blendedSlopeOf
     (newChart\<lparr>state := (state newChart)\<lparr>data := map cgPoint
        [(0, 100), (3600000, 101), (7200000, 102), (10800000, 103), (14400000, 104),
         (18000000, 105), (21600000, 106), (25200000, 107), (28800000, 108),
         (32400000, 109)]\<rparr>,
      currentTimeRange := Range7d, globalSlope := 2\<rparr>) = 1
   \<and> (\<exists>r. calculatePrediction
             (newChart\<lparr>state := (state newChart)\<lparr>data := map cgPoint
                [(0, 100), (3600000, 101), (7200000, 102), (10800000, 103), (14400000, 104),
                 (18000000, 105), (21600000, 106), (25200000, 107), (28800000, 108),
                 (32400000, 109)]\<rparr>,
              currentTimeRange := Range7d, globalSlope := 2\<rparr>) = Inr (Some r)
          \<and> pr_slope r = 1)"
proof -
  let ?c = "newChart\<lparr>state := (state newChart)\<lparr>data := map cgPoint
        [(0, 100), (3600000, 101), (7200000, 102), (10800000, 103), (14400000, 104),
         (18000000, 105), (21600000, 106), (25200000, 107), (28800000, 108),
         (32400000, 109)]\<rparr>,
      currentTimeRange := Range7d, globalSlope := 2\<rparr>"
  have range: "currentTimeRange ?c = Range7d" by simp
  have len: "10 \<le> length (data (state ?c))" by (simp add: newChart_def)
  have none: "sentiment (state ?c) = None" by (simp add: newChart_def)
  have loc: "slope (localRegression ?c) = 1" by code_simp
  note ends = blendSlopes_endpoints [of 0 0 0 0 ?c]
  note at7d = ends [THEN conjunct2, THEN conjunct2, THEN conjunct2, THEN conjunct2,
      THEN conjunct1, rule_format, OF range]
  note reported = ends [THEN conjunct2, THEN conjunct2, THEN conjunct2, THEN conjunct2,
      THEN conjunct2, rule_format, OF len]
  from at7d loc have bl: "blendedSlopeOf ?c = 1" by (simp only:)
  from reported [unfolded none option.case bl]
  have "\<exists>r. calculatePrediction ?c = Inr (Some r) \<and> pr_slope r = 1" by simp
  with bl show ?thesis by (intro conjI)
qed

section \<open>Properties of the quick-stats aggregator\<close>

lemma fetchQuickStats_raised: "raised (fetchQuickStats c now cg yh) = None"
proof (cases "statsWindow cg yh")
  case (Pair r reqs)
  then show ?thesis
    by (cases r) (simp_all add: fetchQuickStats_def)
qed

lemma computeQuickStats_stale:
  assumes ne: "w \<noteq> []"
    and old: "\<forall>p \<in> set w. sp_timestamp p < now - 24 * 60 * 60 * 1000"
  shows "qs_currentPrice (computeQuickStats now w) = sp_close (last w)"
    and "change24h (computeQuickStats now w) = 0"
    and "changePercent24h (computeQuickStats now w) = Fin 0"
proof -
  have "filter (\<lambda>p. sp_timestamp p \<ge> now - 24 * 60 * 60 * 1000) w = []"
    using old by (auto simp: filter_empty_conv)
  then have empty: "filter (\<lambda>p. now - 24 * 60 * 60 * 1000 \<le> sp_timestamp p) w = []"
    by simp
  show "qs_currentPrice (computeQuickStats now w) = sp_close (last w)"
    using ne empty by (simp add: computeQuickStats_def Let_def split_def)
  show "change24h (computeQuickStats now w) = 0"
    using ne empty by (simp add: computeQuickStats_def Let_def split_def)
  show "changePercent24h (computeQuickStats now w) = Fin 0"
    using ne empty by (simp add: computeQuickStats_def Let_def split_def)
qed

text \<open>
  C8. \<open>fetchQuickStats\<close> never raises. If the long reference window it fetched is empty
  (or fetching it failed) it leaves the chart as it was, so no QuickStats value is
  produced and stats that were null stay null. If the window is not empty but holds no point
  of the trailing 24 hours, the QuickStats it stores reports the close of the last point
  of the window as currentPrice, with change24h = 0 and changePercent24h = 0.
\<close>

theorem fetchQuickStats_window:
  "raised (fetchQuickStats c now cg yh) = None
   \<and> (fst (statsWindow cg yh) = Inr [] \<longrightarrow> chart (fetchQuickStats c now cg yh) = c)
   \<and> (\<forall>e. fst (statsWindow cg yh) = Inl e \<longrightarrow> chart (fetchQuickStats c now cg yh) = c)
   \<and> (fst (statsWindow cg yh) = Inr [] \<and> quickStats (state c) = None \<longrightarrow>
        quickStats (state (chart (fetchQuickStats c now cg yh))) = None)
   \<and> (\<forall>w. fst (statsWindow cg yh) = Inr w \<and> w \<noteq> []
            \<and> (\<forall>p \<in> set w. sp_timestamp p < now - 24 * 60 * 60 * 1000) \<longrightarrow>
          (\<exists>q. quickStats (state (chart (fetchQuickStats c now cg yh))) = Some q
             \<and> qs_currentPrice q = sp_close (last w)
             \<and> change24h q = 0
             \<and> changePercent24h q = Fin 0))"
proof (intro conjI impI allI)
  show "raised (fetchQuickStats c now cg yh) = None" by (rule fetchQuickStats_raised)
next
  assume "fst (statsWindow cg yh) = Inr []"
  then show "chart (fetchQuickStats c now cg yh) = c"
    by (cases "statsWindow cg yh") (simp add: fetchQuickStats_def)
next
  fix e
  assume "fst (statsWindow cg yh) = Inl e"
  then show "chart (fetchQuickStats c now cg yh) = c"
    by (cases "statsWindow cg yh") (simp add: fetchQuickStats_def)
next
  assume "fst (statsWindow cg yh) = Inr [] \<and> quickStats (state c) = None"
  then show "quickStats (state (chart (fetchQuickStats c now cg yh))) = None"
    by (cases "statsWindow cg yh") (simp add: fetchQuickStats_def)
next
  fix w
  assume h: "fst (statsWindow cg yh) = Inr w \<and> w \<noteq> []
            \<and> (\<forall>p \<in> set w. sp_timestamp p < now - 24 * 60 * 60 * 1000)"
  then have stored: "quickStats (state (chart (fetchQuickStats c now cg yh)))
                       = Some (computeQuickStats now w)"
    by (cases "statsWindow cg yh") (simp add: fetchQuickStats_def)
  from h have ne: "w \<noteq> []"
    and old: "\<forall>p \<in> set w. sp_timestamp p < now - 24 * 60 * 60 * 1000"
    by simp_all
  show "\<exists>q. quickStats (state (chart (fetchQuickStats c now cg yh))) = Some q
             \<and> qs_currentPrice q = sp_close (last w)
             \<and> change24h q = 0
             \<and> changePercent24h q = Fin 0"
    using stored computeQuickStats_stale [OF ne old] by simp
qed

theorem fetchQuickStats_window_witness:
  "chart (fetchQuickStats newChart 1000000000 (CgOk (CgPrices [])) (YNotOk 500 None)) = newChart
   \<and> quickStats (state (chart (fetchQuickStats newChart 1000000000 (CgOk (CgPrices []))
                                  (YNotOk 500 None)))) = None
   \<and> chart (fetchQuickStats newChart 1000000000 (CgNotOk 429) (YRejected ''timeout'')) = newChart
   \<and> (\<exists>q. quickStats (state (chart (fetchQuickStats newChart 1000000000
                                        (CgOk (CgPrices [(1000, 100), (2000, 101)]))
                                        (YNotOk 500 None)))) = Some q
          \<and> qs_currentPrice q = 101 \<and> change24h q = 0 \<and> changePercent24h q = Fin 0)"
proof -
  have w1: "fst (statsWindow (CgOk (CgPrices [])) (YNotOk 500 None)) = Inr []"
    by (simp add: statsWindow_def statsFromCoinGecko_def statsFromYahoo_def)
  have n1: "quickStats (state newChart) = None"
    by (simp add: newChart_def)
  have w2: "fst (statsWindow (CgNotOk 429) (YRejected ''timeout''))
              = Inl (FetchRejected ''timeout'')"
    by (simp add: statsWindow_def statsFromCoinGecko_def statsFromYahoo_def)
  let ?w = "[\<lparr>sp_timestamp = 1000, sp_close = 100, sp_high = 100, sp_low = 100\<rparr>,
             \<lparr>sp_timestamp = 2000, sp_close = 101, sp_high = 101, sp_low = 101\<rparr>]"
  have w3: "fst (statsWindow (CgOk (CgPrices [(1000, 100), (2000, 101)])) (YNotOk 500 None))
              = Inr ?w \<and> ?w \<noteq> []
              \<and> (\<forall>p \<in> set ?w. sp_timestamp p < 1000000000 - 24 * 60 * 60 * 1000)"
    by (simp add: statsWindow_def statsFromCoinGecko_def)
  note t1 = fetchQuickStats_window [of newChart 1000000000 "CgOk (CgPrices [])" "YNotOk 500 None"]
  note t2 = fetchQuickStats_window [of newChart 1000000000 "CgNotOk 429" "YRejected ''timeout''"]
  note t3 = fetchQuickStats_window
              [of newChart 1000000000 "CgOk (CgPrices [(1000, 100), (2000, 101)])"
                  "YNotOk 500 None"]
  have a: "chart (fetchQuickStats newChart 1000000000 (CgOk (CgPrices [])) (YNotOk 500 None))
             = newChart"
    using t1 w1 by blast
  have b: "quickStats (state (chart (fetchQuickStats newChart 1000000000 (CgOk (CgPrices []))
                                  (YNotOk 500 None)))) = None"
    using t1 w1 n1 by blast
  have c: "chart (fetchQuickStats newChart 1000000000 (CgNotOk 429) (YRejected ''timeout''))
             = newChart"
    using t2 w2 by blast
  have d: "\<exists>q. quickStats (state (chart (fetchQuickStats newChart 1000000000
                                        (CgOk (CgPrices [(1000, 100), (2000, 101)]))
                                        (YNotOk 500 None)))) = Some q
          \<and> qs_currentPrice q = sp_close (last ?w) \<and> change24h q = 0
          \<and> changePercent24h q = Fin 0"
    using t3 w3 by blast
  from a b c d show ?thesis by simp
qed

section \<open>Properties of the quote sources\<close>

















end
